theory Spec2Isabelle
  imports Main
begin

section \<open>Owner actions: signer routing, duplicate detection and submission\<close>

text \<open>
  A shallow embedding of \<^verbatim>\<open>publish/src/command-utils/owner-actions.js\<close>. The module
  exports four asynchronous functions that route on a string discriminant
  (\<^verbatim>\<open>signerKind\<close>) and talk to the Safe helpers, the legacy multisig helpers, the
  wallet and the console. Every call on such a collaborator is written to a trace, in
  program order, and the collaborator's answer (a value or a thrown error) is read from
  an explicit record of responses.
\<close>

subsection \<open>Values\<close>

text \<open>
  \<^verbatim>\<open>const KIND = { safe: 'SAFE', legacy: 'LEGACY', eoa: 'EAO' };\<close>
  The discriminant is a JavaScript string, compared with \<^verbatim>\<open>===\<close>.
\<close>

definition KIND_safe :: string where
  "KIND_safe = ''SAFE''"

definition KIND_legacy :: string where
  "KIND_legacy = ''LEGACY''"

definition KIND_eoa :: string where
  "KIND_eoa = ''EAO''"

text \<open>A contract binding and a wallet; the module reads only their \<^verbatim>\<open>address\<close>.\<close>

datatype contract = Contract (address: string)

datatype wallet = Wallet (wallet_address: string)

datatype tx_response = TxResponse string

datatype receipt = Receipt string

text \<open>
  An entry of a pending set: destination, encoded call data and the backend's sequence
  number (nonce).
\<close>

record pending_tx =
  tx_to :: string
  tx_data :: string
  tx_nonce :: int

text \<open>
  \<^verbatim>\<open>signerData\<close> is a plain object whose properties are set on demand; a property that
  was never set reads as \<^verbatim>\<open>undefined\<close>, here \<open>None\<close>. A JavaScript number is an
  \<open>int\<close>. \<^verbatim>\<open>stagedTransactions\<close> is never written by this module, but
  \<^verbatim>\<open>txAlreadyExists\<close> reads it.
\<close>

record signer_data =
  protocolDaoContract :: "contract option"
  currentSafeNonce :: "int option"
  multisigContract :: "contract option"
  lastNonce :: "int option"
  stagedTransactions :: "pending_tx list option"

definition empty_signer_data :: signer_data where
  "empty_signer_data =
     \<lparr>protocolDaoContract = None, currentSafeNonce = None, multisigContract = None,
      lastNonce = None, stagedTransactions = None\<rparr>"

text \<open>
  The \<^verbatim>\<open>params\<close> object of the direct path. \<open>p_gasLimit = None\<close> is the object
  without a \<^verbatim>\<open>gasLimit\<close> property.
\<close>

record tx_params =
  p_to :: string
  p_gasPrice :: int
  p_data :: string
  p_gasLimit :: "int option"

text \<open>
  JavaScript truthiness of a value that is a number or \<^verbatim>\<open>undefined\<close>:
  \<^verbatim>\<open>undefined\<close> and \<^verbatim>\<open>0\<close> are falsy.
\<close>

definition truthy :: "int option \<Rightarrow> bool" where
  "truthy v = (case v of None \<Rightarrow> False | Some n \<Rightarrow> n \<noteq> 0)"

subsection \<open>Failures, effects and collaborators\<close>

text \<open>
  The failure taxonomy. The module raises one failure of its own: \<^verbatim>\<open>getSignerData\<close>
  logs and calls \<^verbatim>\<open>process.exit()\<close> when the Safe nonce is falsy, which ends the
  session (\<open>BackendUnreachable\<close>). Reading a property of \<^verbatim>\<open>undefined\<close> is a
  \<open>TypeError\<close>. Every other failure is thrown by a collaborator (\<open>Thrown\<close> carries
  the message of one outside the taxonomy) and propagates unchanged, since the module has
  no \<^verbatim>\<open>try\<close>.
\<close>

datatype error =
    BackendUnreachable
  | SignatureFailure
  | SubmissionRejected
  | UnsupportedSignerKind
  | TypeError
  | Thrown string

datatype colour = Gray | Yellow

text \<open>One constructor per call the module makes on something outside itself.\<close>

datatype event =
    GetSafeInstance string string
  | GetSafeNonce contract
  | ConsoleLog colour string
  | ProcessExit
  | GetMultisigInstance string string
  | GetSafeTransactions string string
  | GetMultisigTxCount "contract option"
  | GetMultisigTransactionIds string "contract option" int int bool bool
  | CheckMultisigExistingPendingTx "contract option" "pending_tx list option" string string
  | GetNewTransactionHash "contract option" string string string string "int option"
  | GetSafeSignature string string string
  | SaveTransactionToApi "contract option" string string int string string string string
  | SubmitMultisigTransaction "contract option" string wallet string int string string "int option"
  | ParseUnits string string
  | BigNumberFrom int
  | SendTransaction wallet tx_params
  | Wait tx_response
  | LogTx receipt

text \<open>
  The chain-submission primitives: sending a transaction from the wallet, waiting for its
  receipt, and the legacy multisig's on-chain submission.
\<close>

fun is_chain_submission :: "event \<Rightarrow> bool" where
  "is_chain_submission (SendTransaction w p) = True"
| "is_chain_submission (Wait t) = True"
| "is_chain_submission (SubmitMultisigTransaction c n w t v d gp gl) = True"
| "is_chain_submission e = False"

fun is_getSafeNonce :: "event \<Rightarrow> bool" where
  "is_getSafeNonce (GetSafeNonce c) = True"
| "is_getSafeNonce e = False"

text \<open>
  The sequence numbers a trace staged with the coordination service: the
  \<^verbatim>\<open>nonce\<close> argument of each \<^verbatim>\<open>saveTransactionToApi\<close> call, in order.
\<close>

fun staged_nonces :: "event list \<Rightarrow> int list" where
  "staged_nonces [] = []"
| "staged_nonces (SaveTransactionToApi c n d k t s h g # es) = k # staged_nonces es"
| "staged_nonces (e # es) = staged_nonces es"

text \<open>
  What the outside answers. The helper modules \<^verbatim>\<open>safe-utils\<close> and
  \<^verbatim>\<open>multisig-utils\<close>, the \<^verbatim>\<open>ethers\<close> library and the wallet are not part of the
  module; each of their functions is a field here, from the arguments the module passes
  to either a thrown error or a value. Within one call of an exported function no
  collaborator is called twice, so a function of the arguments loses nothing; two
  successive calls of an exported function may be given two different records.
\<close>

record collaborators =
  getSafeInstance :: "string \<Rightarrow> string \<Rightarrow> error + contract"
  getSafeNonce :: "contract \<Rightarrow> error + int option"
  getSafeTransactions :: "string \<Rightarrow> string \<Rightarrow> error + pending_tx list"
  getMultisigInstance :: "string \<Rightarrow> string \<Rightarrow> error + contract"
  getMultisigTxCount :: "contract option \<Rightarrow> error + int"
  getMultisigTransactionIds ::
    "string \<Rightarrow> contract option \<Rightarrow> int \<Rightarrow> int \<Rightarrow> bool \<Rightarrow> bool \<Rightarrow> error + pending_tx list"
  checkMultisigExistingPendingTx ::
    "contract option \<Rightarrow> pending_tx list option \<Rightarrow> string \<Rightarrow> string \<Rightarrow> error + bool"
  backendSequence :: "contract option \<Rightarrow> string \<Rightarrow> error + int"
  contractTransactionHash ::
    "contract option \<Rightarrow> string \<Rightarrow> string \<Rightarrow> string \<Rightarrow> int \<Rightarrow> error + string"
  getSafeSignature :: "string \<Rightarrow> string \<Rightarrow> string \<Rightarrow> error + string"
  saveTransactionToApi ::
    "contract option \<Rightarrow> string \<Rightarrow> string \<Rightarrow> int \<Rightarrow> string \<Rightarrow> string \<Rightarrow> string \<Rightarrow> string
      \<Rightarrow> error + unit"
  submitMultisigTransaction ::
    "contract option \<Rightarrow> string \<Rightarrow> wallet \<Rightarrow> string \<Rightarrow> int \<Rightarrow> string \<Rightarrow> string \<Rightarrow> int option
      \<Rightarrow> error + receipt"
  parseUnits :: "string \<Rightarrow> string \<Rightarrow> error + int"
  bigNumberFrom :: "int \<Rightarrow> error + int"
  sendTransaction :: "wallet \<Rightarrow> tx_params \<Rightarrow> error + tx_response"
  waitForReceipt :: "tx_response \<Rightarrow> error + receipt"

text \<open>
  A run of an asynchronous function: the trace of calls it made, and either the error it
  rejected with or the value it resolved to.
\<close>

type_synonym 'a io = "event list \<times> (error + 'a)"

definition io_return :: "'a \<Rightarrow> 'a io" where
  "io_return x = ([], Inr x)"

definition io_throw :: "error \<Rightarrow> 'a io" where
  "io_throw e = ([], Inl e)"

definition io_emit :: "event \<Rightarrow> unit io" where
  "io_emit ev = ([ev], Inr ())"

definition io_call :: "event \<Rightarrow> error + 'a \<Rightarrow> 'a io" where
  "io_call ev answer = ([ev], answer)"

definition io_bind :: "'a io \<Rightarrow> ('a \<Rightarrow> 'b io) \<Rightarrow> 'b io" where
  "io_bind m f =
     (case m of
        (tr, Inl e) \<Rightarrow> (tr, Inl e)
      | (tr, Inr x) \<Rightarrow> (case f x of (tr', r) \<Rightarrow> (tr @ tr', r)))"

subsection \<open>Helpers of \<^verbatim>\<open>safe-utils\<close>\<close>

text \<open>
  Modelled from the spec: \<^verbatim>\<open>checkExistingPendingTx\<close> of \<^verbatim>\<open>safe-utils\<close>, which is
  not among the sources. A candidate is a duplicate if some entry of the pending set
  matches both destination and encoded data exactly, and that entry's sequence number is
  greater than or equal to the sequence number it is given. A comparison with an absent
  number is false.
\<close>

definition checkExistingPendingTx ::
  "pending_tx list \<Rightarrow> string \<Rightarrow> string \<Rightarrow> int option \<Rightarrow> bool" where
  "checkExistingPendingTx stagedTxs target encodedData safeNonce =
     (\<exists>tx \<in> set stagedTxs.
        tx_to tx = target \<and> tx_data tx = encodedData \<and>
        (case safeNonce of None \<Rightarrow> False | Some n \<Rightarrow> n \<le> tx_nonce tx))"

text \<open>
  Modelled from the spec: \<^verbatim>\<open>getNewTransactionHash\<close> of \<^verbatim>\<open>safe-utils\<close>, which is
  not among the sources. It computes the transaction hash the coordinating contract will
  recognise, binding destination, data, sender and the next sequence number, which is
  \<^verbatim>\<open>max(trackedSequence, lastLocallyUsed) + 1\<close>: the sequence number the backend reports
  for the contract and the \<^verbatim>\<open>lastNonce\<close> it is passed (when there is one). The backend's
  number and the contract's hash function are collaborators.
\<close>

definition getNewTransactionHash ::
  "collaborators \<Rightarrow> contract option \<Rightarrow> string \<Rightarrow> string \<Rightarrow> string \<Rightarrow> string \<Rightarrow> int option
    \<Rightarrow> (string \<times> int) io" where
  "getNewTransactionHash env safeContract encodedData to_addr sender network lastLocal =
     io_call (GetNewTransactionHash safeContract encodedData to_addr sender network lastLocal)
       (case backendSequence env safeContract network of
          Inl e \<Rightarrow> Inl e
        | Inr trackedSequence \<Rightarrow>
            (let newNonce =
               (case lastLocal of
                  None \<Rightarrow> trackedSequence
                | Some lastLocallyUsed \<Rightarrow> max trackedSequence lastLocallyUsed) + 1
             in case contractTransactionHash env safeContract to_addr encodedData sender newNonce of
                  Inl e \<Rightarrow> Inl e
                | Inr txHash \<Rightarrow> Inr (txHash, newNonce)))"

subsection \<open>The exported functions\<close>

text \<open>
  \<^verbatim>\<open>getSignerData({ signerKind, providerUrl, newOwner })\<close>: two independent
  \<^verbatim>\<open>if\<close> statements, then \<^verbatim>\<open>return signerData\<close>.
\<close>

definition getSignerData :: "collaborators \<Rightarrow> string \<Rightarrow> string \<Rightarrow> string \<Rightarrow> signer_data io" where
  "getSignerData env signerKind providerUrl newOwner =
     io_bind
       (if signerKind = KIND_safe then
          io_bind (io_call (GetSafeInstance providerUrl newOwner)
                     (getSafeInstance env providerUrl newOwner)) (\<lambda>safe.
          io_bind (io_call (GetSafeNonce safe) (getSafeNonce env safe)) (\<lambda>nonce.
          io_bind (if truthy nonce then io_return ()
                   else io_bind (io_emit (ConsoleLog Gray ''Cannot access safe. Exiting.'')) (\<lambda>u.
                        io_bind (io_emit ProcessExit) (\<lambda>u.
                        io_throw BackendUnreachable))) (\<lambda>u.
          io_bind (io_emit (ConsoleLog Yellow
                     (''Using Protocol DAO Safe contract at '' @ address safe))) (\<lambda>u.
          io_return (empty_signer_data
                       \<lparr>protocolDaoContract := Some safe, currentSafeNonce := nonce\<rparr>)))))
        else io_return empty_signer_data) (\<lambda>signerData.
     if signerKind = KIND_legacy then
       io_bind (io_call (GetMultisigInstance providerUrl newOwner)
                  (getMultisigInstance env providerUrl newOwner)) (\<lambda>multisig.
       io_return (signerData\<lparr>multisigContract := Some multisig\<rparr>))
     else io_return signerData)"

text \<open>
  \<^verbatim>\<open>getStagedTransactions({ signerKind, signerData, network })\<close>: the local
  \<^verbatim>\<open>stagedTransactions\<close> is declared without a value (\<open>None\<close>), assigned in the
  Safe and in the legacy branch, and returned. The Safe branch reads
  \<^verbatim>\<open>signerData.protocolDaoContract.address\<close>.
\<close>

definition getStagedTransactions ::
  "collaborators \<Rightarrow> string \<Rightarrow> signer_data \<Rightarrow> string \<Rightarrow> pending_tx list option io" where
  "getStagedTransactions env signerKind signerData network =
     io_bind
       (if signerKind = KIND_safe then
          (case protocolDaoContract signerData of
             None \<Rightarrow> io_throw TypeError
           | Some safe \<Rightarrow>
               io_bind (io_call (GetSafeTransactions network (address safe))
                          (getSafeTransactions env network (address safe))) (\<lambda>txs.
               io_return (Some txs)))
        else io_return None) (\<lambda>staged.
     if signerKind = KIND_legacy then
       io_bind (io_call (GetMultisigTxCount (multisigContract signerData))
                  (getMultisigTxCount env (multisigContract signerData))) (\<lambda>lastTx.
       io_bind (io_call
                  (GetMultisigTransactionIds network (multisigContract signerData) 0 lastTx True False)
                  (getMultisigTransactionIds env network (multisigContract signerData) 0 lastTx
                     True False)) (\<lambda>txs.
       io_return (Some txs)))
     else io_return staged)"

text \<open>
  \<^verbatim>\<open>txAlreadyExists({ signerKind, signerData, stagedTransactions, target, encodedData })\<close>.
  The Safe branch passes the caller's pending set and \<^verbatim>\<open>signerData.currentSafeNonce\<close>;
  the legacy branch passes \<^verbatim>\<open>signerData.stagedTransactions\<close>, not the caller's
  argument; every other kind returns \<^verbatim>\<open>false\<close>.
\<close>

definition txAlreadyExists ::
  "collaborators \<Rightarrow> string \<Rightarrow> signer_data \<Rightarrow> pending_tx list \<Rightarrow> string \<Rightarrow> string \<Rightarrow> bool io" where
  "txAlreadyExists env signerKind signerData stagedTxs target encodedData =
     (if signerKind = KIND_safe then
        io_return
          (checkExistingPendingTx stagedTxs target encodedData (currentSafeNonce signerData))
      else if signerKind = KIND_legacy then
        io_call
          (CheckMultisigExistingPendingTx (multisigContract signerData)
             (stagedTransactions signerData) target encodedData)
          (checkMultisigExistingPendingTx env (multisigContract signerData)
             (stagedTransactions signerData) target encodedData)
      else io_return False)"

text \<open>
  \<^verbatim>\<open>acceptOwnershipBySigner({ signerKind, signerData, useFork, network, privateKey,
  providerUrl, encodedData, to, wallet, gasLimit, gasPrice })\<close>. The function mutates
  \<^verbatim>\<open>signerData.lastNonce\<close> in the Safe branch; the run resolves to the handle as the
  function leaves it, paired with the function's completion value. Every path ends in a
  bare \<^verbatim>\<open>return\<close> or falls off the end, so the completion value is
  \<^verbatim>\<open>undefined\<close> (\<open>None\<close>), never a receipt. When a step throws, the assignment to
  \<^verbatim>\<open>lastNonce\<close> has not happened and the caller's handle is as it was.
\<close>

definition acceptOwnershipBySigner ::
  "collaborators \<Rightarrow> string \<Rightarrow> signer_data \<Rightarrow> bool \<Rightarrow> string \<Rightarrow> string \<Rightarrow> string \<Rightarrow> string \<Rightarrow> string
    \<Rightarrow> wallet \<Rightarrow> int option \<Rightarrow> string \<Rightarrow> (signer_data \<times> receipt option) io" where
  "acceptOwnershipBySigner env signerKind signerData useFork network privateKey providerUrl
      encodedData to_addr wallet gasLimit gasPrice =
     (if signerKind = KIND_safe \<and> \<not> useFork then
        io_bind (getNewTransactionHash env (protocolDaoContract signerData) encodedData to_addr
                   (wallet_address wallet) network (lastNonce signerData)) (\<lambda>(txHash, newNonce).
        io_bind (io_call (GetSafeSignature privateKey providerUrl txHash)
                   (getSafeSignature env privateKey providerUrl txHash)) (\<lambda>signature.
        io_bind (io_call
                   (SaveTransactionToApi (protocolDaoContract signerData) network encodedData
                      newNonce to_addr (wallet_address wallet) txHash signature)
                   (saveTransactionToApi env (protocolDaoContract signerData) network encodedData
                      newNonce to_addr (wallet_address wallet) txHash signature)) (\<lambda>u.
        io_return (signerData\<lparr>lastNonce := Some newNonce\<rparr>, None))))
      else if signerKind = KIND_legacy then
        io_bind (io_call
                   (SubmitMultisigTransaction (multisigContract signerData) network wallet to_addr
                      0 encodedData gasPrice gasLimit)
                   (submitMultisigTransaction env (multisigContract signerData) network wallet
                      to_addr 0 encodedData gasPrice gasLimit)) (\<lambda>receipt.
        io_bind (io_emit (LogTx receipt)) (\<lambda>u.
        io_return (signerData, None)))
      else
        io_bind (io_call (ParseUnits gasPrice ''gwei'') (parseUnits env gasPrice ''gwei''))
          (\<lambda>price.
        io_bind (case gasLimit of
                   None \<Rightarrow> io_return None
                 | Some limit \<Rightarrow>
                     if truthy gasLimit then
                       io_bind (io_call (BigNumberFrom limit) (bigNumberFrom env limit)) (\<lambda>big.
                       io_return (Some big))
                     else io_return None) (\<lambda>limitField.
        io_bind (io_call
                   (SendTransaction wallet
                      \<lparr>p_to = to_addr, p_gasPrice = price, p_data = encodedData,
                       p_gasLimit = limitField\<rparr>)
                   (sendTransaction env wallet
                      \<lparr>p_to = to_addr, p_gasPrice = price, p_data = encodedData,
                       p_gasLimit = limitField\<rparr>)) (\<lambda>tx.
        io_bind (io_call (Wait tx) (waitForReceipt env tx)) (\<lambda>receipt.
        io_bind (io_emit (LogTx receipt)) (\<lambda>u.
        io_return (signerData, None)))))))"

subsection \<open>A concrete outside\<close>

text \<open>
  Collaborators that always succeed, for evaluating the functions on concrete inputs: a
  Safe whose sequence number is 3, no pending transactions, and
  \<^verbatim>\<open>parseUnits\<close> restricted to whole decimal amounts of gwei (an amount times
  \<open>10\<^sup>9\<close>).
\<close>

fun parse_digits :: "string \<Rightarrow> int \<Rightarrow> int option" where
  "parse_digits [] acc = Some acc"
| "parse_digits (c # cs) acc =
     (if 48 \<le> (of_char c :: nat) \<and> (of_char c :: nat) \<le> 57
      then parse_digits cs (10 * acc + (int (of_char c) - 48))
      else None)"

definition demo_parseUnits :: "string \<Rightarrow> string \<Rightarrow> error + int" where
  "demo_parseUnits amount unit_name =
     (if unit_name = ''gwei'' \<and> amount \<noteq> []
      then (case parse_digits amount 0 of
              None \<Rightarrow> Inl (Thrown ''invalid decimal value'')
            | Some n \<Rightarrow> Inr (n * 10 ^ 9))
      else Inl (Thrown ''invalid decimal value''))"

definition demo_collaborators :: collaborators where
  "demo_collaborators =
     \<lparr>getSafeInstance = (\<lambda>providerUrl newOwner. Inr (Contract newOwner)),
      getSafeNonce = (\<lambda>safe. Inr (Some 3)),
      getSafeTransactions = (\<lambda>network safeAddress. Inr []),
      getMultisigInstance = (\<lambda>providerUrl newOwner. Inr (Contract newOwner)),
      getMultisigTxCount = (\<lambda>multisig. Inr 5),
      getMultisigTransactionIds = (\<lambda>network multisig lo hi pending executed. Inr []),
      checkMultisigExistingPendingTx = (\<lambda>multisig staged target encodedData. Inr False),
      backendSequence = (\<lambda>safe network. Inr 3),
      contractTransactionHash = (\<lambda>safe to_addr encodedData sender nonce. Inr ''0xhash''),
      getSafeSignature = (\<lambda>privateKey providerUrl txHash. Inr ''0xsig''),
      saveTransactionToApi =
        (\<lambda>safe network encodedData nonce to_addr sender txHash signature. Inr ()),
      submitMultisigTransaction =
        (\<lambda>multisig network w to_addr amount encodedData gasPrice gasLimit.
           Inr (Receipt ''0xlegacy'')),
      parseUnits = demo_parseUnits,
      bigNumberFrom = (\<lambda>n. Inr n),
      sendTransaction = (\<lambda>w params. Inr (TxResponse ''0xtx'')),
      waitForReceipt = (\<lambda>tx. Inr (Receipt ''0xtx''))\<rparr>"

text \<open>
  The handle of a session that built a Safe handle at sequence number 3 and then made two
  submissions, which used the sequence numbers 4 and 5.
\<close>

definition demo_safe_handle :: signer_data where
  "demo_safe_handle =
     \<lparr>protocolDaoContract = Some (Contract ''0xSafe''), currentSafeNonce = Some 3,
      multisigContract = None, lastNonce = Some 5, stagedTransactions = None\<rparr>"

subsection \<open>Running the trace\<close>

lemma io_bind_return [simp]: "io_bind (io_return x) f = f x"
  by (cases "f x") (simp add: io_bind_def io_return_def)

lemma io_bind_Inr [simp]: "io_bind (tr, Inr x) f = (tr @ fst (f x), snd (f x))"
  by (cases "f x") (simp add: io_bind_def)

lemma io_bind_Inl [simp]: "io_bind (tr, Inl e) f = (tr, Inl e)"
  by (simp add: io_bind_def)

lemma io_bind_throw [simp]: "io_bind (io_throw e) f = io_throw e"
  by (simp add: io_bind_def io_throw_def)

lemma io_bind_emit [simp]: "io_bind (io_emit ev) f = (ev # fst (f ()), snd (f ()))"
  by (cases "f ()") (simp add: io_bind_def io_emit_def)

lemma io_bind_call_Inr [simp]:
  "io_bind (io_call ev (Inr x)) f = (ev # fst (f x), snd (f x))"
  by (cases "f x") (simp add: io_bind_def io_call_def)

lemma io_bind_call_Inl [simp]: "io_bind (io_call ev (Inl e)) f = ([ev], Inl e)"
  by (simp add: io_bind_def io_call_def)

lemma io_bind_call:
  "io_bind (io_call ev answer) f =
     (case answer of Inl e \<Rightarrow> ([ev], Inl e) | Inr x \<Rightarrow> (ev # fst (f x), snd (f x)))"
  by (cases answer) simp_all

lemma fst_io_return [simp]: "fst (io_return x) = []"
  by (simp add: io_return_def)

lemma snd_io_return [simp]: "snd (io_return x) = Inr x"
  by (simp add: io_return_def)

lemma fst_io_throw [simp]: "fst (io_throw e) = []"
  by (simp add: io_throw_def)

lemma snd_io_throw [simp]: "snd (io_throw e) = Inl e"
  by (simp add: io_throw_def)

lemma truthy_iff: "truthy v \<longleftrightarrow> (\<exists>n. v = Some n \<and> n \<noteq> 0)"
  by (cases v) (simp_all add: truthy_def)

lemma kinds_distinct [simp]:
  "KIND_safe \<noteq> KIND_legacy" "KIND_legacy \<noteq> KIND_safe"
  "KIND_eoa \<noteq> KIND_safe" "KIND_eoa \<noteq> KIND_legacy"
  "KIND_safe \<noteq> KIND_eoa" "KIND_legacy \<noteq> KIND_eoa"
  by (simp_all add: KIND_safe_def KIND_legacy_def KIND_eoa_def)

subsection \<open>The Safe submission path, case by case\<close>

lemma io_bind_split:
  "io_bind m f =
     (case snd m of
        Inl e \<Rightarrow> (fst m, Inl e)
      | Inr x \<Rightarrow> (fst m @ fst (f x), snd (f x)))"
  by (cases m; cases "snd m") (auto simp: io_bind_def split: prod.splits)

lemma getNewTransactionHash_trace [simp]:
  "fst (getNewTransactionHash env c d t s n l) = [GetNewTransactionHash c d t s n l]"
  by (simp add: getNewTransactionHash_def io_call_def)

lemma getNewTransactionHash_Inr:
  "snd (getNewTransactionHash env c d t s n l) = Inr (h, k) \<Longrightarrow>
     \<exists>tracked. backendSequence env c n = Inr tracked \<and>
       k = (case l of None \<Rightarrow> tracked | Some u \<Rightarrow> max tracked u) + 1 \<and>
       contractTransactionHash env c t d s k = Inr h"
  by (auto simp: getNewTransactionHash_def io_call_def Let_def split: sum.splits)

lemma accept_safe_cases:
  "acceptOwnershipBySigner env KIND_safe sd False net pk url d t w gl gp =
     (case snd (getNewTransactionHash env (protocolDaoContract sd) d t (wallet_address w) net
                  (lastNonce sd)) of
        Inl e \<Rightarrow>
          ([GetNewTransactionHash (protocolDaoContract sd) d t (wallet_address w) net
              (lastNonce sd)], Inl e)
      | Inr (h, k) \<Rightarrow>
          (case getSafeSignature env pk url h of
             Inl e \<Rightarrow>
               ([GetNewTransactionHash (protocolDaoContract sd) d t (wallet_address w) net
                   (lastNonce sd),
                 GetSafeSignature pk url h], Inl e)
           | Inr s \<Rightarrow>
               (case saveTransactionToApi env (protocolDaoContract sd) net d k t
                       (wallet_address w) h s of
                  Inl e \<Rightarrow>
                    ([GetNewTransactionHash (protocolDaoContract sd) d t (wallet_address w) net
                        (lastNonce sd),
                      GetSafeSignature pk url h,
                      SaveTransactionToApi (protocolDaoContract sd) net d k t (wallet_address w)
                        h s], Inl e)
                | Inr u \<Rightarrow>
                    ([GetNewTransactionHash (protocolDaoContract sd) d t (wallet_address w) net
                        (lastNonce sd),
                      GetSafeSignature pk url h,
                      SaveTransactionToApi (protocolDaoContract sd) net d k t (wallet_address w)
                        h s], Inr (sd\<lparr>lastNonce := Some k\<rparr>, None)))))"
  by (simp add: acceptOwnershipBySigner_def
      io_bind_split [of "getNewTransactionHash env a b c d e f" for a b c d e f]
      io_bind_call split: sum.splits prod.splits)

text \<open>
  A successful Safe submission: the three calls it made, the sequence number it used, and
  the handle it leaves.
\<close>

lemma accept_safe_success:
  assumes "acceptOwnershipBySigner env KIND_safe sd False net pk url d t w gl gp
             = (tr, Inr (sd', ret))"
  shows "\<exists>tracked h s k.
           backendSequence env (protocolDaoContract sd) net = Inr tracked \<and>
           k = (case lastNonce sd of None \<Rightarrow> tracked | Some u \<Rightarrow> max tracked u) + 1 \<and>
           tr = [GetNewTransactionHash (protocolDaoContract sd) d t (wallet_address w) net
                   (lastNonce sd),
                 GetSafeSignature pk url h,
                 SaveTransactionToApi (protocolDaoContract sd) net d k t (wallet_address w) h s] \<and>
           sd' = sd\<lparr>lastNonce := Some k\<rparr> \<and> ret = None"
proof -
  let ?m = "getNewTransactionHash env (protocolDaoContract sd) d t (wallet_address w) net
              (lastNonce sd)"
  from assms obtain h k s where hk: "snd ?m = Inr (h, k)"
    and rest: "tr = [GetNewTransactionHash (protocolDaoContract sd) d t (wallet_address w) net
                       (lastNonce sd),
                     GetSafeSignature pk url h,
                     SaveTransactionToApi (protocolDaoContract sd) net d k t (wallet_address w)
                       h s]"
              "sd' = sd\<lparr>lastNonce := Some k\<rparr>" "ret = None"
    unfolding accept_safe_cases by (auto split: sum.splits prod.splits)
  from getNewTransactionHash_Inr [OF hk] obtain tracked where
    "backendSequence env (protocolDaoContract sd) net = Inr tracked"
    "k = (case lastNonce sd of None \<Rightarrow> tracked | Some u \<Rightarrow> max tracked u) + 1"
    by blast
  with rest show ?thesis by blast
qed

subsection \<open>The direct path\<close>

text \<open>
  Whatever is not the Safe kind without fork mode and not the legacy kind reaches the
  code after the two \<^verbatim>\<open>if\<close> statements, and nothing there reads the kind or the
  fork flag again.
\<close>

lemma accept_direct_eq:
  assumes "signerKind \<noteq> KIND_legacy" "signerKind \<noteq> KIND_safe \<or> useFork"
  shows "acceptOwnershipBySigner env signerKind sd useFork net pk url d t w gl gp =
           acceptOwnershipBySigner env KIND_eoa sd False net pk url d t w gl gp"
  using assms by (auto simp: acceptOwnershipBySigner_def)

lemma accept_direct_trace:
  "\<exists>rest. fst (acceptOwnershipBySigner env KIND_eoa sd False net pk url d t w gl gp)
            = ParseUnits gp ''gwei'' # rest"
  by (cases "parseUnits env gp ''gwei''") (simp_all add: acceptOwnershipBySigner_def)

text \<open>
  A successful submission on any path but the Safe path without fork mode stages nothing
  and leaves the handle as it was.
\<close>

lemma accept_other_handle:
  assumes "signerKind \<noteq> KIND_safe \<or> useFork"
    and "acceptOwnershipBySigner env signerKind sd useFork net pk url d t w gl gp
           = (tr, Inr (sd', ret))"
  shows "sd' = sd \<and> ret = None \<and> staged_nonces tr = []"
proof (cases "signerKind = KIND_legacy")
  case True
  with assms(2) show ?thesis
    by (cases "submitMultisigTransaction env (multisigContract sd) net w t 0 d gp gl")
       (auto simp: acceptOwnershipBySigner_def)
next
  case False
  from accept_direct_eq [OF False assms(1)] assms(2)
  have run: "acceptOwnershipBySigner env KIND_eoa sd False net pk url d t w gl gp
               = (tr, Inr (sd', ret))" by simp
  then show ?thesis
    by (auto simp: acceptOwnershipBySigner_def io_bind_call truthy_def
        split: sum.splits option.splits if_splits)
qed

subsection \<open>Concrete runs\<close>

text \<open>
  Building a Safe handle and submitting twice: the sequence numbers 4 and 5 are used, and
  the handle ends as \<open>demo_safe_handle\<close>.
\<close>

lemma demo_safe_handle_reached:
  "getSignerData demo_collaborators KIND_safe ''url'' ''0xSafe''
     = ([GetSafeInstance ''url'' ''0xSafe'', GetSafeNonce (Contract ''0xSafe''),
         ConsoleLog Yellow ''Using Protocol DAO Safe contract at 0xSafe''],
        Inr (demo_safe_handle\<lparr>lastNonce := None\<rparr>))"
  "acceptOwnershipBySigner demo_collaborators KIND_safe (demo_safe_handle\<lparr>lastNonce := None\<rparr>)
     False ''mainnet'' ''key'' ''url'' ''0xData'' ''0xTarget'' (Wallet ''0xW'') None ''20''
     = ([GetNewTransactionHash (Some (Contract ''0xSafe'')) ''0xData'' ''0xTarget'' ''0xW''
           ''mainnet'' None,
         GetSafeSignature ''key'' ''url'' ''0xhash'',
         SaveTransactionToApi (Some (Contract ''0xSafe'')) ''mainnet'' ''0xData'' 4 ''0xTarget''
           ''0xW'' ''0xhash'' ''0xsig''],
        Inr (demo_safe_handle\<lparr>lastNonce := Some 4\<rparr>, None))"
  "acceptOwnershipBySigner demo_collaborators KIND_safe (demo_safe_handle\<lparr>lastNonce := Some 4\<rparr>)
     False ''mainnet'' ''key'' ''url'' ''0xOther'' ''0xTarget'' (Wallet ''0xW'') None ''20''
     = ([GetNewTransactionHash (Some (Contract ''0xSafe'')) ''0xOther'' ''0xTarget'' ''0xW''
           ''mainnet'' (Some 4),
         GetSafeSignature ''key'' ''url'' ''0xhash'',
         SaveTransactionToApi (Some (Contract ''0xSafe'')) ''mainnet'' ''0xOther'' 5 ''0xTarget''
           ''0xW'' ''0xhash'' ''0xsig''],
        Inr (demo_safe_handle, None))"
    apply (simp add: getSignerData_def demo_collaborators_def demo_safe_handle_def
      empty_signer_data_def truthy_def)
   apply (simp add: accept_safe_cases getNewTransactionHash_def io_call_def
      demo_collaborators_def demo_safe_handle_def)
  apply (simp add: accept_safe_cases getNewTransactionHash_def io_call_def
      demo_collaborators_def demo_safe_handle_def)
  done

text \<open>A direct execution with gas price \<^verbatim>\<open>"20"\<close> and no gas limit.\<close>

lemma demo_direct:
  assumes "kind \<noteq> KIND_legacy" and "kind \<noteq> KIND_safe \<or> fork"
  shows "acceptOwnershipBySigner demo_collaborators kind sd fork ''mainnet'' ''key'' ''url''
           ''0xData'' ''0xTarget'' (Wallet ''0xW'') None ''20''
         = ([ParseUnits ''20'' ''gwei'',
             SendTransaction (Wallet ''0xW'')
               \<lparr>p_to = ''0xTarget'', p_gasPrice = 20000000000, p_data = ''0xData'',
                p_gasLimit = None\<rparr>,
             Wait (TxResponse ''0xtx''), LogTx (Receipt ''0xtx'')],
            Inr (sd, None))"
  unfolding accept_direct_eq [OF assms]
  by (simp add: acceptOwnershipBySigner_def demo_collaborators_def demo_parseUnits_def)

section \<open>The claims\<close>

subsection \<open>C1: the Safe duplicate check\<close>

text \<open>
  C1, as the code has it. For the Safe kind \<^verbatim>\<open>txAlreadyExists\<close> calls no collaborator
  and returns true if and only if some entry of the supplied pending set matches the
  candidate's destination and encoded data exactly and has a sequence number greater than
  or equal to \<^verbatim>\<open>signerData.currentSafeNonce\<close>, the sequence number fetched when the
  handle was built. Entries below that number are ignored: dropping them from the pending
  set never changes the result. (The check is \<^verbatim>\<open>checkExistingPendingTx\<close>, modelled
  from the spec.)
\<close>

theorem txAlreadyExists_safe_current_nonce:
  "txAlreadyExists env KIND_safe signerData stagedTxs target encodedData =
     ([], Inr (\<exists>tx \<in> set stagedTxs. tx_to tx = target \<and> tx_data tx = encodedData \<and>
                (\<exists>n. currentSafeNonce signerData = Some n \<and> n \<le> tx_nonce tx)))
   \<and> txAlreadyExists env KIND_safe signerData
        (filter (\<lambda>tx. \<exists>n. currentSafeNonce signerData = Some n \<and> n \<le> tx_nonce tx) stagedTxs)
        target encodedData
      = txAlreadyExists env KIND_safe signerData stagedTxs target encodedData"
  by (cases "currentSafeNonce signerData")
     (auto simp: txAlreadyExists_def checkExistingPendingTx_def io_return_def)

text \<open>
  C1 at a handle whose \<^verbatim>\<open>currentSafeNonce\<close> is 3: a matching entry with sequence
  number 3 is a duplicate, a matching entry with sequence number 2 alone is not.
\<close>

theorem txAlreadyExists_safe_current_nonce_witness:
  "txAlreadyExists demo_collaborators KIND_safe demo_safe_handle
     [\<lparr>tx_to = ''0xTarget'', tx_data = ''0xData'', tx_nonce = 2\<rparr>,
      \<lparr>tx_to = ''0xTarget'', tx_data = ''0xData'', tx_nonce = 3\<rparr>] ''0xTarget'' ''0xData''
   = ([], Inr True)
   \<and> txAlreadyExists demo_collaborators KIND_safe demo_safe_handle
     [\<lparr>tx_to = ''0xTarget'', tx_data = ''0xData'', tx_nonce = 2\<rparr>] ''0xTarget'' ''0xData''
   = ([], Inr False)"
  using txAlreadyExists_safe_current_nonce [of demo_collaborators demo_safe_handle
      "[\<lparr>tx_to = ''0xTarget'', tx_data = ''0xData'', tx_nonce = 2\<rparr>,
        \<lparr>tx_to = ''0xTarget'', tx_data = ''0xData'', tx_nonce = 3\<rparr>]" "''0xTarget''" "''0xData''"]
    txAlreadyExists_safe_current_nonce [of demo_collaborators demo_safe_handle
      "[\<lparr>tx_to = ''0xTarget'', tx_data = ''0xData'', tx_nonce = 2\<rparr>]" "''0xTarget''" "''0xData''"]
  by (simp add: demo_safe_handle_def)

text \<open>
  C1 as stated fails when the tracked sequence number is the one \<^verbatim>\<open>submit\<close> advances
  (\<^verbatim>\<open>signerData.lastNonce\<close>). After two submissions the handle tracks 5 while
  \<^verbatim>\<open>currentSafeNonce\<close> is still 3; a matching pending entry with sequence number 4,
  strictly below the tracked 5, is not ignored: the check returns true.
\<close>

theorem txAlreadyExists_safe_tracked_counterexample:
  "lastNonce demo_safe_handle = Some 5 \<and> currentSafeNonce demo_safe_handle = Some 3 \<and>
   txAlreadyExists demo_collaborators KIND_safe demo_safe_handle
     [\<lparr>tx_to = ''0xTarget'', tx_data = ''0xData'', tx_nonce = 4\<rparr>] ''0xTarget'' ''0xData''
   = ([], Inr True)"
  by (simp add: txAlreadyExists_def checkExistingPendingTx_def io_return_def demo_safe_handle_def)

subsection \<open>C2: sequence numbers across Safe submissions\<close>

text \<open>
  C2. Take two consecutive successful Safe submissions (fork mode off) on the same handle,
  against any two states of the outside. Each staged exactly one transaction, and the
  handle's \<^verbatim>\<open>lastNonce\<close> after each is the sequence number that submission staged;
  the second number is strictly greater than the first, and the first is strictly greater
  than whatever \<^verbatim>\<open>lastNonce\<close> the handle held before. Moreover no successful
  submission of any kind, in either fork mode, ever lowers \<^verbatim>\<open>lastNonce\<close>: it
  either stages nothing and leaves \<^verbatim>\<open>lastNonce\<close> alone, or stages one transaction
  and sets \<^verbatim>\<open>lastNonce\<close> to its sequence number, which exceeds the previous one.
  (The next sequence number comes from \<^verbatim>\<open>getNewTransactionHash\<close>, modelled from the
  spec.)
\<close>

theorem safe_submissions_strictly_increasing:
  assumes first: "acceptOwnershipBySigner env1 KIND_safe sd False net1 pk1 url1 d1 t1 w1 gl1 gp1
                    = (tr1, Inr (sd1, ret1))"
    and second: "acceptOwnershipBySigner env2 KIND_safe sd1 False net2 pk2 url2 d2 t2 w2 gl2 gp2
                    = (tr2, Inr (sd2, ret2))"
  shows "(\<exists>n1 n2. staged_nonces tr1 = [n1] \<and> lastNonce sd1 = Some n1 \<and>
                  staged_nonces tr2 = [n2] \<and> lastNonce sd2 = Some n2 \<and>
                  n1 < n2 \<and> (\<forall>n0. lastNonce sd = Some n0 \<longrightarrow> n0 < n1)) \<and>
         (\<forall>env signerKind h useFork net pk url d t w gl gp tr h' ret.
            acceptOwnershipBySigner env signerKind h useFork net pk url d t w gl gp
              = (tr, Inr (h', ret)) \<longrightarrow>
            (staged_nonces tr = [] \<and> lastNonce h' = lastNonce h) \<or>
            (\<exists>n. staged_nonces tr = [n] \<and> lastNonce h' = Some n \<and>
                 (\<forall>m. lastNonce h = Some m \<longrightarrow> m < n)))"
proof -
  from accept_safe_success [OF first] obtain tracked1 n1 where
    one: "staged_nonces tr1 = [n1]" "sd1 = sd\<lparr>lastNonce := Some n1\<rparr>"
      "n1 = (case lastNonce sd of None \<Rightarrow> tracked1 | Some u \<Rightarrow> max tracked1 u) + 1"
    by auto
  from accept_safe_success [OF second] obtain tracked2 n2 where
    two: "staged_nonces tr2 = [n2]" "sd2 = sd1\<lparr>lastNonce := Some n2\<rparr>"
      "n2 = (case lastNonce sd1 of None \<Rightarrow> tracked2 | Some u \<Rightarrow> max tracked2 u) + 1"
    by auto
  from one(2) two(3) have "n1 < n2" by simp
  moreover from one(3) have "\<forall>n0. lastNonce sd = Some n0 \<longrightarrow> n0 < n1" by auto
  ultimately have consecutive:
    "\<exists>n1 n2. staged_nonces tr1 = [n1] \<and> lastNonce sd1 = Some n1 \<and>
             staged_nonces tr2 = [n2] \<and> lastNonce sd2 = Some n2 \<and>
             n1 < n2 \<and> (\<forall>n0. lastNonce sd = Some n0 \<longrightarrow> n0 < n1)"
    using one two by simp
  have step: "(staged_nonces tr = [] \<and> lastNonce h' = lastNonce h) \<or>
              (\<exists>n. staged_nonces tr = [n] \<and> lastNonce h' = Some n \<and>
                   (\<forall>m. lastNonce h = Some m \<longrightarrow> m < n))"
    if run: "acceptOwnershipBySigner env signerKind h useFork net pk url d t w gl gp
               = (tr, Inr (h', ret))"
    for env signerKind h useFork net pk url d t w gl gp tr h' ret
  proof (cases "signerKind = KIND_safe \<and> \<not> useFork")
    case True
    with run have "acceptOwnershipBySigner env KIND_safe h False net pk url d t w gl gp
                     = (tr, Inr (h', ret))" by simp
    from accept_safe_success [OF this] show ?thesis by (auto split: option.splits)
  next
    case False
    then have "signerKind \<noteq> KIND_safe \<or> useFork" by simp
    from accept_other_handle [OF this run] show ?thesis by simp
  qed
  from consecutive step show ?thesis by blast
qed

text \<open>
  C2 on a Safe whose backend reports sequence number 3: the first submission uses 4, the
  second uses 5.
\<close>

theorem safe_submissions_strictly_increasing_witness:
  "\<exists>tr1 sd1 tr2.
     acceptOwnershipBySigner demo_collaborators KIND_safe (demo_safe_handle\<lparr>lastNonce := None\<rparr>)
       False ''mainnet'' ''key'' ''url'' ''0xData'' ''0xTarget'' (Wallet ''0xW'') None ''20''
       = (tr1, Inr (sd1, None)) \<and>
     acceptOwnershipBySigner demo_collaborators KIND_safe sd1
       False ''mainnet'' ''key'' ''url'' ''0xOther'' ''0xTarget'' (Wallet ''0xW'') None ''20''
       = (tr2, Inr (demo_safe_handle, None)) \<and>
     staged_nonces tr1 = [4] \<and> lastNonce sd1 = Some 4 \<and>
     staged_nonces tr2 = [5] \<and> lastNonce demo_safe_handle = Some 5"
  using safe_submissions_strictly_increasing
      [OF demo_safe_handle_reached(2) demo_safe_handle_reached(3), THEN conjunct1]
    demo_safe_handle_reached(2) demo_safe_handle_reached(3)
  by (simp add: demo_safe_handle_def)

subsection \<open>C3: a signer kind that is none of the three\<close>

text \<open>
  C3, as the code has it. The module compares the kind with \<^verbatim>\<open>'SAFE'\<close> and
  \<^verbatim>\<open>'LEGACY'\<close> only. For every other string, recognised or not, every exported
  function behaves as for the direct kind: \<^verbatim>\<open>getSignerData\<close> returns the empty
  handle, \<^verbatim>\<open>getStagedTransactions\<close> returns \<^verbatim>\<open>undefined\<close>,
  \<^verbatim>\<open>txAlreadyExists\<close> returns false, none of them calling a collaborator, and
  \<^verbatim>\<open>acceptOwnershipBySigner\<close> runs the direct execution, which starts by converting
  the gas price. No function fails with \<open>UnsupportedSignerKind\<close>.
\<close>

theorem other_kind_behaves_as_direct:
  assumes "signerKind \<noteq> KIND_safe" and "signerKind \<noteq> KIND_legacy"
  shows "getSignerData env signerKind providerUrl newOwner = ([], Inr empty_signer_data) \<and>
         getStagedTransactions env signerKind signerData network = ([], Inr None) \<and>
         txAlreadyExists env signerKind signerData stagedTxs target encodedData = ([], Inr False) \<and>
         acceptOwnershipBySigner env signerKind signerData useFork network privateKey providerUrl
             encodedData to_addr wallet gasLimit gasPrice
           = acceptOwnershipBySigner env KIND_eoa signerData useFork network privateKey providerUrl
               encodedData to_addr wallet gasLimit gasPrice \<and>
         (\<exists>rest. fst (acceptOwnershipBySigner env signerKind signerData useFork network privateKey
                        providerUrl encodedData to_addr wallet gasLimit gasPrice)
                   = ParseUnits gasPrice ''gwei'' # rest)"
proof -
  have a: "acceptOwnershipBySigner env signerKind signerData useFork network privateKey providerUrl
             encodedData to_addr wallet gasLimit gasPrice
           = acceptOwnershipBySigner env KIND_eoa signerData False network privateKey providerUrl
               encodedData to_addr wallet gasLimit gasPrice"
    using assms by (intro accept_direct_eq) simp_all
  have b: "acceptOwnershipBySigner env KIND_eoa signerData useFork network privateKey providerUrl
             encodedData to_addr wallet gasLimit gasPrice
           = acceptOwnershipBySigner env KIND_eoa signerData False network privateKey providerUrl
               encodedData to_addr wallet gasLimit gasPrice"
    by (intro accept_direct_eq) simp_all
  have "getSignerData env signerKind providerUrl newOwner = ([], Inr empty_signer_data)"
    using assms by (simp add: getSignerData_def io_return_def)
  moreover have "getStagedTransactions env signerKind signerData network = ([], Inr None)"
    using assms by (simp add: getStagedTransactions_def io_return_def)
  moreover have "txAlreadyExists env signerKind signerData stagedTxs target encodedData
                   = ([], Inr False)"
    using assms by (simp add: txAlreadyExists_def io_return_def)
  ultimately show ?thesis
    using a b accept_direct_trace [of env signerData network privateKey providerUrl encodedData
        to_addr wallet gasLimit gasPrice]
    by simp
qed

text \<open>C3 at the kind \<^verbatim>\<open>'EOA'\<close>, which is not a value of \<^verbatim>\<open>KIND\<close>.\<close>

theorem other_kind_behaves_as_direct_witness:
  "''EOA'' \<noteq> KIND_safe \<and> ''EOA'' \<noteq> KIND_legacy \<and>
   getSignerData demo_collaborators ''EOA'' ''url'' ''0xOwner'' = ([], Inr empty_signer_data) \<and>
   getStagedTransactions demo_collaborators ''EOA'' empty_signer_data ''mainnet'' = ([], Inr None) \<and>
   txAlreadyExists demo_collaborators ''EOA'' empty_signer_data [] ''0xTarget'' ''0xData''
     = ([], Inr False) \<and>
   acceptOwnershipBySigner demo_collaborators ''EOA'' empty_signer_data False ''mainnet'' ''key''
       ''url'' ''0xData'' ''0xTarget'' (Wallet ''0xW'') None ''20''
     = acceptOwnershipBySigner demo_collaborators KIND_eoa empty_signer_data False ''mainnet''
         ''key'' ''url'' ''0xData'' ''0xTarget'' (Wallet ''0xW'') None ''20''"
proof -
  have k: "''EOA'' \<noteq> KIND_safe" "''EOA'' \<noteq> KIND_legacy"
    by (simp_all add: KIND_safe_def KIND_legacy_def)
  from other_kind_behaves_as_direct [OF k] k show ?thesis by simp
qed

text \<open>
  C3 as stated fails at the kind \<^verbatim>\<open>'EOA'\<close>, none of \<^verbatim>\<open>'SAFE'\<close>,
  \<^verbatim>\<open>'LEGACY'\<close> and \<^verbatim>\<open>'EAO'\<close>: \<^verbatim>\<open>acceptOwnershipBySigner\<close> does not fail, it
  sends the transaction from the wallet and logs the receipt.
\<close>

theorem unrecognised_kind_counterexample:
  "''EOA'' \<noteq> KIND_safe \<and> ''EOA'' \<noteq> KIND_legacy \<and> ''EOA'' \<noteq> KIND_eoa \<and>
   acceptOwnershipBySigner demo_collaborators ''EOA'' empty_signer_data False ''mainnet'' ''key''
       ''url'' ''0xData'' ''0xTarget'' (Wallet ''0xW'') None ''20''
     = ([ParseUnits ''20'' ''gwei'',
         SendTransaction (Wallet ''0xW'')
           \<lparr>p_to = ''0xTarget'', p_gasPrice = 20000000000, p_data = ''0xData'',
            p_gasLimit = None\<rparr>,
         Wait (TxResponse ''0xtx''), LogTx (Receipt ''0xtx'')],
        Inr (empty_signer_data, None))"
proof -
  have k: "''EOA'' \<noteq> KIND_safe" "''EOA'' \<noteq> KIND_legacy" "''EOA'' \<noteq> KIND_eoa"
    by (simp_all add: KIND_safe_def KIND_legacy_def KIND_eoa_def)
  from k demo_direct [of "''EOA''" False empty_signer_data] show ?thesis by simp
qed

subsection \<open>C4: a Safe submission never touches the chain\<close>

text \<open>
  C4. For every input and every behaviour of the outside, a submission of the Safe kind
  with fork mode off makes no chain-submission call (no \<^verbatim>\<open>sendTransaction\<close>, no
  \<^verbatim>\<open>wait\<close>, no legacy submission) and logs no receipt, also when it fails half way.
  When it succeeds it has made exactly three calls, in this order: computing the
  transaction hash, signing it, and staging data, signature and hash with the
  coordination service; and it returns no receipt.
\<close>

theorem safe_submission_never_touches_chain:
  "(\<forall>ev \<in> set (fst (acceptOwnershipBySigner env KIND_safe signerData False network privateKey
                       providerUrl encodedData to_addr wallet gasLimit gasPrice)).
       \<not> is_chain_submission ev \<and> (\<forall>receipt. ev \<noteq> LogTx receipt)) \<and>
   (\<forall>signerData' ret.
       snd (acceptOwnershipBySigner env KIND_safe signerData False network privateKey
              providerUrl encodedData to_addr wallet gasLimit gasPrice) = Inr (signerData', ret) \<longrightarrow>
       ret = None \<and>
       (\<exists>txHash signature newNonce.
          fst (acceptOwnershipBySigner env KIND_safe signerData False network privateKey
                 providerUrl encodedData to_addr wallet gasLimit gasPrice)
            = [GetNewTransactionHash (protocolDaoContract signerData) encodedData to_addr
                 (wallet_address wallet) network (lastNonce signerData),
               GetSafeSignature privateKey providerUrl txHash,
               SaveTransactionToApi (protocolDaoContract signerData) network encodedData newNonce
                 to_addr (wallet_address wallet) txHash signature]))"
  unfolding accept_safe_cases
  by (auto split: sum.splits prod.splits)

text \<open>C4 on the first submission of the concrete session.\<close>

theorem safe_submission_never_touches_chain_witness:
  "(\<exists>tr sd'. acceptOwnershipBySigner demo_collaborators KIND_safe
        (demo_safe_handle\<lparr>lastNonce := None\<rparr>) False ''mainnet'' ''key'' ''url'' ''0xData''
        ''0xTarget'' (Wallet ''0xW'') None ''20'' = (tr, Inr (sd', None)) \<and>
      list_all (\<lambda>ev. \<not> is_chain_submission ev) tr \<and> length tr = 3)"
  using safe_submission_never_touches_chain [of demo_collaborators "demo_safe_handle\<lparr>lastNonce := None\<rparr>" "''mainnet''"
      "''key''" "''url''" "''0xData''" "''0xTarget''" "Wallet ''0xW''" None "''20''"]
  by (simp add: demo_safe_handle_reached(2))

subsection \<open>C5: building a Safe handle\<close>

text \<open>
  C5. Once the Safe contract binding is made, \<^verbatim>\<open>getSignerData\<close> for the Safe kind
  asks for the contract's sequence number exactly once. If the answer is unusable
  (\<^verbatim>\<open>undefined\<close> or zero), it logs that the Safe cannot be accessed and ends the
  process, with no second attempt: the run fails with \<open>BackendUnreachable\<close>. If the
  answer is a usable number, it returns a handle that carries the contract binding and
  that number, and nothing else.
\<close>

theorem getSignerData_safe_nonce_check:
  assumes inst: "getSafeInstance env providerUrl newOwner = Inr safe"
  shows "length (filter is_getSafeNonce (fst (getSignerData env KIND_safe providerUrl newOwner))) = 1 \<and>
    (\<forall>nonce. getSafeNonce env safe = Inr nonce \<longrightarrow>
      (nonce = None \<or> nonce = Some 0 \<longrightarrow>
         getSignerData env KIND_safe providerUrl newOwner
           = ([GetSafeInstance providerUrl newOwner, GetSafeNonce safe,
               ConsoleLog Gray ''Cannot access safe. Exiting.'', ProcessExit],
              Inl BackendUnreachable)) \<and>
      (\<forall>n. nonce = Some n \<and> n \<noteq> 0 \<longrightarrow>
         getSignerData env KIND_safe providerUrl newOwner
           = ([GetSafeInstance providerUrl newOwner, GetSafeNonce safe,
               ConsoleLog Yellow (''Using Protocol DAO Safe contract at '' @ address safe)],
              Inr \<lparr>protocolDaoContract = Some safe, currentSafeNonce = Some n,
                   multisigContract = None, lastNonce = None, stagedTransactions = None\<rparr>)))"
proof (cases "getSafeNonce env safe")
  case (Inl e)
  with inst show ?thesis by (simp add: getSignerData_def)
next
  case (Inr nonce)
  with inst show ?thesis
    by (cases nonce) (auto simp: getSignerData_def truthy_def empty_signer_data_def io_throw_def)
qed

text \<open>C5 on a Safe that answers 0, and on a Safe that answers 3.\<close>

theorem getSignerData_safe_nonce_check_witness:
  "getSafeInstance (demo_collaborators\<lparr>getSafeNonce := \<lambda>safe. Inr (Some 0)\<rparr>) ''url'' ''0xSafe''
     = Inr (Contract ''0xSafe'') \<and>
   getSignerData (demo_collaborators\<lparr>getSafeNonce := \<lambda>safe. Inr (Some 0)\<rparr>) KIND_safe ''url''
       ''0xSafe''
     = ([GetSafeInstance ''url'' ''0xSafe'', GetSafeNonce (Contract ''0xSafe''),
         ConsoleLog Gray ''Cannot access safe. Exiting.'', ProcessExit],
        Inl BackendUnreachable) \<and>
   getSafeInstance demo_collaborators ''url'' ''0xSafe'' = Inr (Contract ''0xSafe'') \<and>
   getSignerData demo_collaborators KIND_safe ''url'' ''0xSafe''
     = ([GetSafeInstance ''url'' ''0xSafe'', GetSafeNonce (Contract ''0xSafe''),
         ConsoleLog Yellow ''Using Protocol DAO Safe contract at 0xSafe''],
        Inr \<lparr>protocolDaoContract = Some (Contract ''0xSafe''), currentSafeNonce = Some 3,
             multisigContract = None, lastNonce = None, stagedTransactions = None\<rparr>)"
proof -
  have a: "getSafeInstance (demo_collaborators\<lparr>getSafeNonce := \<lambda>safe. Inr (Some 0)\<rparr>) ''url''
             ''0xSafe'' = Inr (Contract ''0xSafe'')"
    by (simp add: demo_collaborators_def)
  have b: "getSafeInstance demo_collaborators ''url'' ''0xSafe'' = Inr (Contract ''0xSafe'')"
    by (simp add: demo_collaborators_def)
  have c: "getSafeNonce (demo_collaborators\<lparr>getSafeNonce := \<lambda>safe. Inr (Some 0)\<rparr>)
             (Contract ''0xSafe'') = Inr (Some 0)"
    "getSafeNonce demo_collaborators (Contract ''0xSafe'') = Inr (Some 3)"
    by (simp_all add: demo_collaborators_def)
  from getSignerData_safe_nonce_check [OF a] getSignerData_safe_nonce_check [OF b] a b c show ?thesis by simp
qed

subsection \<open>C6: the direct kind has no duplicates\<close>

text \<open>
  C6. For the direct kind \<^verbatim>\<open>txAlreadyExists\<close> returns false for every handle, pending
  set, destination and encoded data, without calling any collaborator.
\<close>

theorem txAlreadyExists_direct_false:
  "txAlreadyExists env KIND_eoa signerData stagedTxs target encodedData = ([], Inr False)"
  by (simp add: txAlreadyExists_def io_return_def)

text \<open>C6 on a pending set that holds the very candidate.\<close>

theorem txAlreadyExists_direct_false_witness:
  "txAlreadyExists demo_collaborators KIND_eoa demo_safe_handle
     [\<lparr>tx_to = ''0xTarget'', tx_data = ''0xData'', tx_nonce = 7\<rparr>] ''0xTarget'' ''0xData''
   = ([], Inr False)"
  by (rule txAlreadyExists_direct_false)

subsection \<open>C7: the direct kind has no pending set\<close>

text \<open>
  C7, as the code has it. For the direct kind \<^verbatim>\<open>getStagedTransactions\<close> calls no
  collaborator and returns \<^verbatim>\<open>undefined\<close>: the local variable is declared without a
  value and neither branch assigns it.
\<close>

theorem getStagedTransactions_direct_undefined:
  "getStagedTransactions env KIND_eoa signerData network = ([], Inr None)"
  by (simp add: getStagedTransactions_def io_return_def)

text \<open>C7 on the concrete outside.\<close>

theorem getStagedTransactions_direct_undefined_witness:
  "getStagedTransactions demo_collaborators KIND_eoa empty_signer_data ''mainnet''
   = ([], Inr None)"
  by (rule getStagedTransactions_direct_undefined)

text \<open>
  C7 as stated fails: for the direct kind the result is \<^verbatim>\<open>undefined\<close>, which is not
  the empty pending set.
\<close>

theorem getStagedTransactions_direct_not_empty_counterexample:
  "snd (getStagedTransactions demo_collaborators KIND_eoa empty_signer_data ''mainnet'') = Inr None \<and>
   snd (getStagedTransactions demo_collaborators KIND_eoa empty_signer_data ''mainnet'')
     \<noteq> Inr (Some [])"
  by (simp add: getStagedTransactions_def)

subsection \<open>C8: the legacy duplicate check\<close>

text \<open>
  C8. For the legacy kind the result of \<^verbatim>\<open>txAlreadyExists\<close> is the answer of the
  legacy contract's own check, called once with the handle's contract, the handle's
  \<^verbatim>\<open>stagedTransactions\<close> property, and the destination and encoded data unchanged.
  Two calls that differ only in the caller's pending-set argument give the same result,
  and so do two calls that differ only in the handle's sequence numbers: no sequence
  number reaches the check.
\<close>

theorem txAlreadyExists_legacy_ignores_argument:
  "txAlreadyExists env KIND_legacy signerData stagedTxs target encodedData
     = txAlreadyExists env KIND_legacy signerData stagedTxs' target encodedData \<and>
   txAlreadyExists env KIND_legacy (signerData\<lparr>currentSafeNonce := n, lastNonce := l\<rparr>) stagedTxs
       target encodedData
     = txAlreadyExists env KIND_legacy signerData stagedTxs target encodedData \<and>
   txAlreadyExists env KIND_legacy signerData stagedTxs target encodedData
     = ([CheckMultisigExistingPendingTx (multisigContract signerData)
           (stagedTransactions signerData) target encodedData],
        checkMultisigExistingPendingTx env (multisigContract signerData)
          (stagedTransactions signerData) target encodedData)"
  by (simp add: txAlreadyExists_def io_call_def)

text \<open>C8 on the concrete outside, with an empty and a non-empty pending-set argument.\<close>

theorem txAlreadyExists_legacy_ignores_argument_witness:
  "txAlreadyExists demo_collaborators KIND_legacy empty_signer_data [] ''0xTarget'' ''0xData''
   = txAlreadyExists demo_collaborators KIND_legacy empty_signer_data
       [\<lparr>tx_to = ''0xTarget'', tx_data = ''0xData'', tx_nonce = 1\<rparr>] ''0xTarget'' ''0xData''"
  by (rule txAlreadyExists_legacy_ignores_argument [THEN conjunct1])

subsection \<open>C9: the direct execution\<close>

text \<open>
  C9, as the code has it. On the direct path (the direct kind, or the Safe kind in fork
  mode) the transaction carries the destination, the encoded data and the gas price that
  \<^verbatim>\<open>parseUnits(gasPrice, 'gwei')\<close> returns. The \<^verbatim>\<open>gasLimit\<close> property is attached
  exactly when the supplied gas limit is truthy: with no gas limit, or with a gas limit
  of 0, the transaction has none; with a non-zero gas limit it has
  \<^verbatim>\<open>BigNumber.from(gasLimit)\<close>. The transaction is sent from the wallet and awaited,
  and the receipt is logged; the function itself returns no value.
\<close>

theorem direct_execution_params:
  assumes kind: "signerKind = KIND_eoa \<or> (signerKind = KIND_safe \<and> useFork)"
    and price: "parseUnits env gasPrice ''gwei'' = Inr price"
  shows
   "(gasLimit = None \<or> gasLimit = Some 0 \<longrightarrow>
      (\<forall>tx receipt.
         sendTransaction env wallet
           \<lparr>p_to = to_addr, p_gasPrice = price, p_data = encodedData, p_gasLimit = None\<rparr> = Inr tx \<and>
         waitForReceipt env tx = Inr receipt \<longrightarrow>
         acceptOwnershipBySigner env signerKind signerData useFork network privateKey providerUrl
             encodedData to_addr wallet gasLimit gasPrice
           = ([ParseUnits gasPrice ''gwei'',
               SendTransaction wallet
                 \<lparr>p_to = to_addr, p_gasPrice = price, p_data = encodedData, p_gasLimit = None\<rparr>,
               Wait tx, LogTx receipt],
              Inr (signerData, None)))) \<and>
    (\<forall>n big tx receipt.
       gasLimit = Some n \<and> n \<noteq> 0 \<and> bigNumberFrom env n = Inr big \<and>
       sendTransaction env wallet
         \<lparr>p_to = to_addr, p_gasPrice = price, p_data = encodedData, p_gasLimit = Some big\<rparr> = Inr tx \<and>
       waitForReceipt env tx = Inr receipt \<longrightarrow>
       acceptOwnershipBySigner env signerKind signerData useFork network privateKey providerUrl
           encodedData to_addr wallet gasLimit gasPrice
         = ([ParseUnits gasPrice ''gwei'', BigNumberFrom n,
             SendTransaction wallet
               \<lparr>p_to = to_addr, p_gasPrice = price, p_data = encodedData, p_gasLimit = Some big\<rparr>,
             Wait tx, LogTx receipt],
            Inr (signerData, None)))"
proof -
  have eq: "acceptOwnershipBySigner env signerKind signerData useFork network privateKey providerUrl
             encodedData to_addr wallet gasLimit gasPrice
           = acceptOwnershipBySigner env KIND_eoa signerData False network privateKey providerUrl
               encodedData to_addr wallet gasLimit gasPrice"
    using kind by (intro accept_direct_eq) auto
  show ?thesis
    unfolding eq using price
    by (auto simp: acceptOwnershipBySigner_def truthy_def)
qed

text \<open>
  C9 with gas price \<^verbatim>\<open>"20"\<close>: the direct kind without a gas limit, and the Safe kind
  in fork mode with a gas limit of 150000.
\<close>

theorem direct_execution_params_witness:
  "acceptOwnershipBySigner demo_collaborators KIND_eoa empty_signer_data False ''mainnet'' ''key''
       ''url'' ''0xData'' ''0xTarget'' (Wallet ''0xW'') None ''20''
     = ([ParseUnits ''20'' ''gwei'',
         SendTransaction (Wallet ''0xW'')
           \<lparr>p_to = ''0xTarget'', p_gasPrice = 20000000000, p_data = ''0xData'',
            p_gasLimit = None\<rparr>,
         Wait (TxResponse ''0xtx''), LogTx (Receipt ''0xtx'')],
        Inr (empty_signer_data, None)) \<and>
   acceptOwnershipBySigner demo_collaborators KIND_safe demo_safe_handle True ''mainnet'' ''key''
       ''url'' ''0xData'' ''0xTarget'' (Wallet ''0xW'') (Some 150000) ''20''
     = ([ParseUnits ''20'' ''gwei'', BigNumberFrom 150000,
         SendTransaction (Wallet ''0xW'')
           \<lparr>p_to = ''0xTarget'', p_gasPrice = 20000000000, p_data = ''0xData'',
            p_gasLimit = Some 150000\<rparr>,
         Wait (TxResponse ''0xtx''), LogTx (Receipt ''0xtx'')],
        Inr (demo_safe_handle, None))"
proof -
  have p: "parseUnits demo_collaborators ''20'' ''gwei'' = Inr 20000000000"
    by (simp add: demo_collaborators_def demo_parseUnits_def)
  have k1: "KIND_eoa = KIND_eoa \<or> (KIND_eoa = KIND_safe \<and> False)" by simp
  have k2: "KIND_safe = KIND_eoa \<or> (KIND_safe = KIND_safe \<and> True)" by simp
  have r: "bigNumberFrom demo_collaborators 150000 = Inr 150000"
    "sendTransaction demo_collaborators w ps = Inr (TxResponse ''0xtx'')"
    "waitForReceipt demo_collaborators t = Inr (Receipt ''0xtx'')" for w ps t
    by (simp_all add: demo_collaborators_def)
  from direct_execution_params [OF k1 p, of None "Wallet ''0xW''" "''0xTarget''" "''0xData''"]
    direct_execution_params [OF k2 p, of "Some 150000" "Wallet ''0xW''" "''0xTarget''" "''0xData''"] r
  show ?thesis by simp
qed

text \<open>
  C9 as stated fails when a gas limit of 0 is provided: the transaction is sent without a
  \<^verbatim>\<open>gasLimit\<close> property. The confirmation yields a receipt, which is logged, and the
  function returns \<^verbatim>\<open>undefined\<close>, not the receipt.
\<close>

theorem direct_execution_zero_gas_limit_counterexample:
  "acceptOwnershipBySigner demo_collaborators KIND_eoa empty_signer_data False ''mainnet'' ''key''
       ''url'' ''0xData'' ''0xTarget'' (Wallet ''0xW'') (Some 0) ''20''
     = ([ParseUnits ''20'' ''gwei'',
         SendTransaction (Wallet ''0xW'')
           \<lparr>p_to = ''0xTarget'', p_gasPrice = 20000000000, p_data = ''0xData'',
            p_gasLimit = None\<rparr>,
         Wait (TxResponse ''0xtx''), LogTx (Receipt ''0xtx'')],
        Inr (empty_signer_data, None))"
  by (simp add: acceptOwnershipBySigner_def demo_collaborators_def demo_parseUnits_def truthy_def)

subsection \<open>C10: the staleness threshold does not move\<close>

text \<open>
  C10. The Safe duplicate check does not read \<^verbatim>\<open>signerData.lastNonce\<close>: two handles
  that differ only in \<^verbatim>\<open>lastNonce\<close> give the same result. In particular the handle a
  successful submission leaves behind gives the same results as the handle before it, so
  earlier submissions of a session do not raise the threshold of later checks.
\<close>

theorem txAlreadyExists_safe_ignores_lastNonce:
  "txAlreadyExists env KIND_safe (signerData\<lparr>lastNonce := l\<rparr>) stagedTxs target encodedData
     = txAlreadyExists env KIND_safe signerData stagedTxs target encodedData \<and>
   (acceptOwnershipBySigner env' KIND_safe signerData False network privateKey providerUrl
        encodedData' to_addr wallet gasLimit gasPrice = (tr, Inr (signerData', ret)) \<longrightarrow>
    txAlreadyExists env KIND_safe signerData' stagedTxs target encodedData
      = txAlreadyExists env KIND_safe signerData stagedTxs target encodedData)"
proof -
  have a: "txAlreadyExists env KIND_safe (sd\<lparr>lastNonce := l\<rparr>) stagedTxs target encodedData
     = txAlreadyExists env KIND_safe sd stagedTxs target encodedData" for sd l
    by (simp add: txAlreadyExists_def)
  show ?thesis using a by (auto dest!: accept_safe_success)
qed

text \<open>C10 across the first submission of the concrete session.\<close>

theorem txAlreadyExists_safe_ignores_lastNonce_witness:
  "txAlreadyExists demo_collaborators KIND_safe (demo_safe_handle\<lparr>lastNonce := Some 4\<rparr>)
       [\<lparr>tx_to = ''0xTarget'', tx_data = ''0xData'', tx_nonce = 3\<rparr>] ''0xTarget'' ''0xData''
     = txAlreadyExists demo_collaborators KIND_safe (demo_safe_handle\<lparr>lastNonce := None\<rparr>)
       [\<lparr>tx_to = ''0xTarget'', tx_data = ''0xData'', tx_nonce = 3\<rparr>] ''0xTarget'' ''0xData''"
  by (rule txAlreadyExists_safe_ignores_lastNonce [THEN conjunct2, rule_format, OF demo_safe_handle_reached(2)])

end
